theory Spec2Isabelle
  imports Main "HOL-Library.AList"
begin

section \<open>Values\<close>

text \<open>
  The library builds error classes at run time. A class is a JavaScript function object;
  two classes with the same contents are still different objects, so a class made by
  \<open>create\<close> is identified by the position at which it was allocated (\<open>Made r\<close>).
  The other function values that the code can meet are listed by what they are.
\<close>

datatype func =
    GlobalError          \<comment> \<open>\<open>global.Error\<close>\<close>
  | AbstractCtor         \<comment> \<open>the \<open>construct\<close> function of \<open>AbstractError\<close>\<close>
  | NotFoundCtor         \<comment> \<open>the \<open>construct\<close> function of \<open>Block.ErrorNotFound\<close>\<close>
  | AbstractError        \<comment> \<open>the class \<open>AbstractError\<close>, made when the module is loaded\<close>
  | ErrorNotFound        \<comment> \<open>the class \<open>Block.ErrorNotFound\<close>, made when the module is loaded\<close>
  | BlockFn              \<comment> \<open>the function \<open>Block\<close> (\<open>Block.prototype.constructor\<close>)\<close>
  | BlockMethod string   \<comment> \<open>a function assigned to \<open>Block.prototype\<close>\<close>
  | ObjectMethod string  \<comment> \<open>a built-in method of \<open>Object.prototype\<close>\<close>
  | Extern nat           \<comment> \<open>any other function, supplied by the caller\<close>
  | Made nat             \<comment> \<open>a \<open>CustomError\<close> closure returned by \<open>create\<close>\<close>

text \<open>
  Numbers are the integers (printed in decimal); a plain object is the list of its own
  properties in insertion order, which is the order of \<open>for ... in\<close>.
\<close>

datatype jsval =
    Undefined
  | Null
  | Bool bool
  | Num int
  | Str string
  | Fun func
  | Arr "jsval list"
  | Obj "(string \<times> jsval) list"

datatype jstype = TUndefined | TObject | TBoolean | TNumber | TString | TFunction

fun typeof :: "jsval \<Rightarrow> jstype" where
  "typeof Undefined = TUndefined"
| "typeof Null = TObject"
| "typeof (Bool b) = TBoolean"
| "typeof (Num n) = TNumber"
| "typeof (Str s) = TString"
| "typeof (Fun f) = TFunction"
| "typeof (Arr xs) = TObject"
| "typeof (Obj kvs) = TObject"

fun truthy :: "jsval \<Rightarrow> bool" where
  "truthy Undefined = False"
| "truthy Null = False"
| "truthy (Bool b) = b"
| "truthy (Num n) = (n \<noteq> 0)"
| "truthy (Str s) = (s \<noteq> [])"
| "truthy (Fun f) = True"
| "truthy (Arr xs) = True"
| "truthy (Obj kvs) = True"

definition nullish :: "jsval \<Rightarrow> bool" where
  \<comment> \<open>\<open>(v === null) || (v === undefined)\<close>\<close>
  "nullish v = (v = Null \<or> v = Undefined)"

fun digits :: "nat \<Rightarrow> string" where
  "digits n =
     (if n < 10 then [''0123456789'' ! n]
      else digits (n div 10) @ [''0123456789'' ! (n mod 10)])"

definition show_int :: "int \<Rightarrow> string" where
  "show_int i = (if i < 0 then CHR ''-'' # digits (nat (- i)) else digits (nat i))"

fun join :: "string list \<Rightarrow> string" where
  "join [] = []"
| "join [s] = s"
| "join (s # t # ss) = s @ CHR '','' # join (t # ss)"

text \<open>
  \<open>"" + v\<close>: the string that concatenation makes of a value. The source text of a
  function is not part of the model, a function stands as \<open>function\<close>; the code never
  concatenates one unless a caller passes a function where a name belongs.
\<close>

fun to_string :: "jsval \<Rightarrow> string" where
  "to_string Undefined = ''undefined''"
| "to_string Null = ''null''"
| "to_string (Bool b) = (if b then ''true'' else ''false'')"
| "to_string (Num n) = show_int n"
| "to_string (Str s) = s"
| "to_string (Fun f) = ''function''"
| "to_string (Arr xs) =
     join (map (\<lambda>v. if v = Undefined \<or> v = Null then [] else to_string v) xs)"
| "to_string (Obj kvs) = ''[object Object]''"

definition getprop :: "(string \<times> jsval) list \<Rightarrow> string \<Rightarrow> jsval" where
  \<comment> \<open>\<open>o[k]\<close> on a plain object: the own property, else \<open>undefined\<close>\<close>
  "getprop kvs k = (case map_of kvs k of Some v \<Rightarrow> v | None \<Rightarrow> Undefined)"

definition hasOwnProperty :: "(string \<times> jsval) list \<Rightarrow> string \<Rightarrow> bool" where
  "hasOwnProperty kvs k = (map_of kvs k \<noteq> None)"

definition setprop :: "(string \<times> jsval) list \<Rightarrow> string \<Rightarrow> jsval \<Rightarrow> (string \<times> jsval) list" where
  \<comment> \<open>\<open>o[k] = v\<close>: an existing property keeps its place, a new one goes last\<close>
  "setprop kvs k v = AList.update k v kvs"

definition index :: "jsval list \<Rightarrow> nat \<Rightarrow> jsval" where
  \<comment> \<open>\<open>a[i]\<close> on an array: \<open>undefined\<close> out of range\<close>
  "index xs i = (if i < length xs then xs ! i else Undefined)"

section \<open>Error types\<close>

text \<open>
  What \<open>create\<close> fixes for one \<open>CustomError\<close> closure: the variables \<open>name\<close> and
  \<open>abstract\<close> that the closure reads, and the object \<open>CustomError.ce\<close>. The closure's
  variable \<open>construct\<close> is the value stored as \<open>ce.construct\<close>, and
  \<open>CustomError.prototype.name\<close> and \<open>CustomError.prototype.message\<close> are \<open>name\<close> and
  \<open>ce.defmessage\<close>. Nothing in the library assigns to any of them afterwards.
\<close>

record etype =
  tname :: jsval
  tabstract :: jsval
  ce_parent :: jsval
  ce_defmessage :: jsval
  ce_construct :: jsval

text \<open>The classes allocated so far; \<open>Made r\<close> is the class at position \<open>r\<close>.\<close>

type_synonym heap = "etype list"

text \<open>An instance: the class whose prototype it has, and its own properties.\<close>

record inst =
  proto :: func
  own :: "string \<rightharpoonup> jsval"

datatype exn =
    TypeError            \<comment> \<open>raised by the JavaScript engine\<close>
  | Thrown inst          \<comment> \<open>\<open>throw new T(...)\<close>\<close>
  | ThrownValue jsval    \<comment> \<open>any other value thrown by a caller's function\<close>

text \<open>
  The two classes of the module, \<open>create({name: ..., construct: function ...})\<close>:
  no parent is given, so the parent is \<open>global.Error\<close>, which has no \<open>ce\<close>.
\<close>

definition AbstractError_type :: etype where
  "AbstractError_type =
     \<lparr>tname = Str ''customErrors.AbstractError'', tabstract = Undefined,
      ce_parent = Fun GlobalError, ce_defmessage = Undefined,
      ce_construct = Fun AbstractCtor\<rparr>"

definition ErrorNotFound_type :: etype where
  "ErrorNotFound_type =
     \<lparr>tname = Str ''customErrors.ErrorNotFound'', tabstract = Undefined,
      ce_parent = Fun GlobalError, ce_defmessage = Undefined,
      ce_construct = Fun NotFoundCtor\<rparr>"

fun type_of :: "heap \<Rightarrow> func \<Rightarrow> etype option" where
  "type_of h AbstractError = Some AbstractError_type"
| "type_of h ErrorNotFound = Some ErrorNotFound_type"
| "type_of h (Made r) = (if r < length h then Some (h ! r) else None)"
| "type_of h f = None"

definition ce_of :: "heap \<Rightarrow> jsval \<Rightarrow> etype option" where
  \<comment> \<open>\<open>parent.ce\<close>: only the classes made by \<open>create\<close> have one\<close>
  "ce_of h v = (case v of Fun f \<Rightarrow> type_of h f | _ \<Rightarrow> None)"

text \<open>
  \<open>Object.create(parent.prototype)\<close> raises a \<open>TypeError\<close> unless \<open>parent.prototype\<close> is
  an object: a function has one, the built-in methods of \<open>Object.prototype\<close> apart; a
  value that is not a function is taken to have none.
\<close>

fun has_prototype :: "jsval \<Rightarrow> bool" where
  "has_prototype (Fun (ObjectMethod m)) = False"
| "has_prototype (Fun f) = True"
| "has_prototype v = False"

subsection \<open>create\<close>

definition create5 ::
  "jsval \<Rightarrow> jsval \<Rightarrow> jsval \<Rightarrow> jsval \<Rightarrow> jsval \<Rightarrow> heap \<Rightarrow> exn + jsval \<times> heap" where
  \<comment> \<open>the body of \<open>create\<close> once \<open>name\<close> is not an object\<close>
  "create5 name parent0 defmessage0 abstract construct0 h =
     (let parent = (if truthy parent0 then parent0 else Fun GlobalError);
          defmessage =
            (if defmessage0 = Null \<or> defmessage0 = Undefined
             then (case ce_of h parent of
                     Some ce \<Rightarrow> ce_defmessage ce
                   | None \<Rightarrow> defmessage0)
             else defmessage0);
          construct =
            (if typeof construct0 \<noteq> TFunction
             then (case ce_of h parent of
                     Some ce \<Rightarrow>
                       if typeof (ce_construct ce) = TFunction then ce_construct ce else Null
                   | None \<Rightarrow> Null)
             else construct0)
      in if \<not> has_prototype parent then Inl TypeError
         else Inr (Fun (Made (length h)),
                   h @ [\<lparr>tname = name, tabstract = abstract, ce_parent = parent,
                         ce_defmessage = defmessage, ce_construct = construct\<rparr>]))"

function (sequential) create ::
  "jsval \<Rightarrow> jsval \<Rightarrow> jsval \<Rightarrow> jsval \<Rightarrow> jsval \<Rightarrow> heap \<Rightarrow> exn + jsval \<times> heap" where
  "create Null parent defmessage abstract construct h = Inl TypeError"
| "create (Obj kvs) parent defmessage abstract construct h =
     create (getprop kvs ''name'') (getprop kvs ''parent'') (getprop kvs ''defmessage'')
       (getprop kvs ''abstract'') (getprop kvs ''construct'') h"
| "create (Arr xs) parent defmessage abstract construct h =
     create5 Undefined Undefined Undefined Undefined Undefined h"
| "create name parent defmessage abstract construct h =
     create5 name parent defmessage abstract construct h"
  by pat_completeness auto
termination
proof (relation "measure (\<lambda>(name, parent, defmessage, abstract, construct, h). size name)")
  show "wf (measure (\<lambda>(name, parent, defmessage, abstract, construct, h). size name))"
    by simp
next
  fix kvs :: "(string \<times> jsval) list" and parent defmessage abstract construct :: jsval
    and h :: heap
  have "size (getprop kvs k) < Suc (size_list (size_prod (\<lambda>x. 0) size) kvs)" for k
  proof (induction kvs)
    case Nil
    then show ?case by (simp add: getprop_def)
  next
    case (Cons a kvs)
    then show ?case by (cases a) (auto simp: getprop_def split: option.splits)
  qed
  then show "((getprop kvs ''name'', getprop kvs ''parent'', getprop kvs ''defmessage'',
                getprop kvs ''abstract'', getprop kvs ''construct'', h),
               Obj kvs, parent, defmessage, abstract, construct, h)
             \<in> measure (\<lambda>(name, parent, defmessage, abstract, construct, h). size name)"
    by simp
qed


subsection \<open>Instances\<close>

text \<open>
  A \<open>construct\<close> function supplied by a caller is opaque. Its behaviour is a parameter
  of the model: given the function, the classes, the instance under construction and the
  arguments, it returns the instance as the function leaves it, or what it throws.
  The property \<open>stack\<close> that \<open>Error.captureStackTrace\<close> adds is left out.
\<close>

type_synonym extern = "func \<Rightarrow> heap \<Rightarrow> inst \<Rightarrow> jsval list \<Rightarrow> exn + inst"

definition AbstractCtor_body :: "inst \<Rightarrow> jsval list \<Rightarrow> inst" where
  \<comment> \<open>\<open>this.errorname = errorname; this.message = "Error " + errorname + " is abstract"\<close>\<close>
  "AbstractCtor_body this args =
     (let errorname = index args 0 in
      this\<lparr>own := (own this)
        (''errorname'' \<mapsto> errorname,
         ''message'' \<mapsto> Str (''Error '' @ to_string errorname @ '' is abstract''))\<rparr>)"

definition NotFoundCtor_body :: "inst \<Rightarrow> jsval list \<Rightarrow> inst" where
  \<comment> \<open>\<open>this.errorname = errorname; this.message = "Error " + errorname + " is not found in block"\<close>\<close>
  "NotFoundCtor_body this args =
     (let errorname = index args 0 in
      this\<lparr>own := (own this)
        (''errorname'' \<mapsto> errorname,
         ''message'' \<mapsto> Str (''Error '' @ to_string errorname @ '' is not found in block''))\<rparr>)"

fun apply_fn :: "extern \<Rightarrow> heap \<Rightarrow> jsval \<Rightarrow> inst \<Rightarrow> jsval list \<Rightarrow> exn + inst" where
  \<comment> \<open>\<open>construct.apply(this, arguments)\<close>\<close>
  "apply_fn ext h (Fun AbstractCtor) this args = Inr (AbstractCtor_body this args)"
| "apply_fn ext h (Fun NotFoundCtor) this args = Inr (NotFoundCtor_body this args)"
| "apply_fn ext h (Fun f) this args = ext f h this args"
| "apply_fn ext h v this args = Inl TypeError"

definition new_AbstractError :: "jsval \<Rightarrow> inst" where
  \<comment> \<open>\<open>new AbstractError(name)\<close>: the class is not abstract and has the \<open>construct\<close> above\<close>
  "new_AbstractError name = AbstractCtor_body \<lparr>proto = AbstractError, own = Map.empty\<rparr> [name]"

definition new_ErrorNotFound :: "jsval \<Rightarrow> inst" where
  \<comment> \<open>\<open>new Block.ErrorNotFound(name)\<close>\<close>
  "new_ErrorNotFound name = NotFoundCtor_body \<lparr>proto = ErrorNotFound, own = Map.empty\<rparr> [name]"

definition CustomError :: "extern \<Rightarrow> heap \<Rightarrow> etype \<Rightarrow> inst \<Rightarrow> jsval list \<Rightarrow> exn + inst" where
  \<comment> \<open>the body of the closure \<open>CustomError(message)\<close> of the class \<open>T\<close>\<close>
  "CustomError ext h T this args =
     (if truthy (tabstract T) then Inl (Thrown (new_AbstractError (tname T)))
      else if truthy (ce_construct T) then apply_fn ext h (ce_construct T) this args
      else let message = index args 0 in
           if message \<noteq> Undefined \<and> message \<noteq> Null
           then Inr (this\<lparr>own := (own this)(''message'' \<mapsto> message)\<rparr>)
           else Inr this)"

definition new_instance :: "extern \<Rightarrow> heap \<Rightarrow> jsval \<Rightarrow> jsval list \<Rightarrow> exn + inst" where
  \<comment> \<open>\<open>new F(args)\<close>\<close>
  "new_instance ext h F args =
     (case F of
        Fun f \<Rightarrow>
          (case type_of h f of
             Some T \<Rightarrow> CustomError ext h T \<lparr>proto = f, own = Map.empty\<rparr> args
           | None \<Rightarrow> ext f h \<lparr>proto = f, own = Map.empty\<rparr> args)
      | _ \<Rightarrow> Inl TypeError)"



subsection \<open>inherit\<close>


section \<open>Block\<close>

record params =
  p_errors :: "(string \<times> jsval) list"
  p_namespace :: jsval
  p_prefix :: string
  p_base :: jsval
  p_lazy :: bool

text \<open>
  A Block instance: the object that the constructor stores as \<open>this.p\<close>, and the own
  properties assigned through \<open>this.created = ...\<close> and \<open>this[name] = ...\<close>. An
  assignment \<open>this["p"] = ...\<close> hides the parameter object: then \<open>props b ''p''\<close> is set.
  The descriptor map lists its keys in the order \<open>for ... in\<close> enumerates them; no
  descriptor object is shared between two keys, and no key of the map or of a descriptor
  object is \<open>hasOwnProperty\<close>, the method that the code calls on them. The accessor
  \<open>__proto__\<close> is treated as an ordinary property name. The operations \<open>get\<close>,
  \<open>raise\<close>, \<open>createAll\<close> and \<open>getBase\<close> below are the functions of
  \<open>Block.prototype\<close>, applied to a Block.
\<close>

record block =
  p :: params
  props :: "string \<rightharpoonup> jsval"

definition block_methods :: "string list" where
  "block_methods = [''get'', ''raise'', ''createAll'', ''getBase'']"

definition object_methods :: "string list" where
  "object_methods =
     [''hasOwnProperty'', ''isPrototypeOf'', ''propertyIsEnumerable'', ''toLocaleString'',
      ''toString'', ''valueOf'', ''__defineGetter__'', ''__defineSetter__'',
      ''__lookupGetter__'', ''__lookupSetter__'']"

definition params_obj :: "params \<Rightarrow> jsval" where
  "params_obj q =
     Obj [(''errors'', Obj (p_errors q)), (''namespace'', p_namespace q),
          (''prefix'', Str (p_prefix q)), (''base'', p_base q), (''lazy'', Bool (p_lazy q))]"

definition this_prop :: "block \<Rightarrow> string \<Rightarrow> jsval" where
  \<comment> \<open>\<open>this[name]\<close>: own properties, then \<open>Block.prototype\<close>, then \<open>Object.prototype\<close>\<close>
  "this_prop b name =
     (case props b name of
        Some v \<Rightarrow> v
      | None \<Rightarrow>
          if name = ''p'' then params_obj (p b)
          else if name \<in> set block_methods then Fun (BlockMethod name)
          else if name = ''created'' then Bool False
          else if name = ''constructor'' then Fun BlockFn
          else if name \<in> set object_methods then Fun (ObjectMethod name)
          else Undefined)"

definition set_this :: "block \<Rightarrow> string \<Rightarrow> jsval \<Rightarrow> block" where
  \<comment> \<open>\<open>this[name] = v\<close>\<close>
  "set_this b name v = b\<lparr>props := (props b)(name \<mapsto> v)\<rparr>"

definition set_base :: "block \<Rightarrow> jsval \<Rightarrow> block" where
  \<comment> \<open>\<open>this.p.base = v\<close>; when \<open>this.p\<close> is hidden by a function the assignment lands on
      that function\<close>
  "set_base b v = (if props b ''p'' = None then b\<lparr>p := (p b)\<lparr>p_base := v\<rparr>\<rparr> else b)"

definition set_descriptor :: "block \<Rightarrow> string \<Rightarrow> jsval \<Rightarrow> block" where
  \<comment> \<open>an assignment to a property of the descriptor object \<open>errors[name]\<close>, written
      as the object after it\<close>
  "set_descriptor b name d = b\<lparr>p := (p b)\<lparr>p_errors := setprop (p_errors (p b)) name d\<rparr>\<rparr>"

text \<open>
  A method call \<open>this.m(...)\<close> finds \<open>m\<close> on the instance first. \<open>get\<close> returns before
  it stores under a name whose property is a function, so the one own property that can
  hide a method is the abstract base class that \<open>getBase\<close> stores under the base name;
  calling it raises \<open>AbstractError\<close>. Another function in that place gets no result
  from the model.
\<close>

datatype dispatch = Proto | Raises exn | Opaque

definition dispatch :: "block \<Rightarrow> heap \<Rightarrow> string \<Rightarrow> dispatch" where
  "dispatch b h m =
     (case props b m of
        None \<Rightarrow> Proto
      | Some (Fun f) \<Rightarrow>
          (case type_of h f of
             Some T \<Rightarrow>
               if truthy (tabstract T) then Raises (Thrown (new_AbstractError (tname T)))
               else Opaque
           | None \<Rightarrow> Opaque)
      | Some v \<Rightarrow> Raises TypeError)"

type_synonym 'a outcome = "((exn + 'a) \<times> block \<times> heap) option"

definition getBase :: "block \<Rightarrow> heap \<Rightarrow> (exn + jsval) \<times> block \<times> heap" where
  \<comment> \<open>private: called by \<open>get\<close> after it has read \<open>this.p.errors\<close>\<close>
  "getBase b h =
     (case p_base (p b) of
        Str name \<Rightarrow>
          (case create (Str (p_prefix (p b) @ name)) (Fun GlobalError) (Str [])
                  (Bool True) Undefined h of
             Inl e \<Rightarrow> (Inl e, b, h)
           | Inr (base, h') \<Rightarrow> (Inr base, set_base (set_this b name base) base, h'))
      | base \<Rightarrow> (Inr base, b, h))"

definition call_getBase :: "block \<Rightarrow> heap \<Rightarrow> jsval outcome" where
  \<comment> \<open>\<open>this.getBase()\<close>\<close>
  "call_getBase b h =
     (case dispatch b h ''getBase'' of
        Proto \<Rightarrow> Some (getBase b h)
      | Raises e \<Rightarrow> Some (Inl e, b, h)
      | Opaque \<Rightarrow> None)"

text \<open>
  The three shapes of a descriptor: the parent reference \<open>ptr\<close>, the object \<open>params\<close>
  for \<open>create\<close>, and whether \<open>params\<close> is the descriptor object itself (then an
  assignment to \<open>params\<close> is one to \<open>errors[name]\<close>).
\<close>

definition normalise ::
  "string \<Rightarrow> jsval \<Rightarrow> exn + jsval \<times> (string \<times> jsval) list \<times> bool" where
  "normalise pname d =
     (case d of
        Arr xs \<Rightarrow>
          Inr (index xs 0,
               [(''name'', Str pname), (''defmessage'', index xs 1), (''abstract'', index xs 2)],
               False)
      | Null \<Rightarrow> Inl TypeError
      | Obj kvs \<Rightarrow>
          (let params = setprop kvs ''name'' (Str pname) in
           Inr (if hasOwnProperty params ''parent'' then getprop params ''parent''
                else Bool True,
                params, True))
      | _ \<Rightarrow> Inr (d, [(''name'', Str pname)], False))"

definition write_back :: "bool \<Rightarrow> block \<Rightarrow> string \<Rightarrow> (string \<times> jsval) list \<Rightarrow> block" where
  \<comment> \<open>the state after an assignment to a property of \<open>params\<close>\<close>
  "write_back aliased b name params =
     (if aliased then set_descriptor b name (Obj params) else b)"

definition finish ::
  "string \<Rightarrow> (string \<times> jsval) list \<Rightarrow> bool \<Rightarrow> jsval \<Rightarrow> block \<Rightarrow> heap
     \<Rightarrow> (exn + jsval) \<times> block \<times> heap" where
  \<comment> \<open>\<open>params.parent = parent; this[name] = create(params); return this[name]\<close>\<close>
  "finish name params aliased parent b h =
     (let params' = setprop params ''parent'' parent;
          b1 = write_back aliased b name params'
      in case create (Obj params') Undefined Undefined Undefined Undefined h of
           Inl e \<Rightarrow> (Inl e, b1, h)
         | Inr (T, h') \<Rightarrow> (Inr T, set_this b1 name T, h'))"

text \<open>
  A chain of string parent references can be cyclic, and then \<open>get\<close> never returns:
  the first argument bounds the depth of the recursion, and \<open>None\<close> is the run that
  needs more.
\<close>

fun get :: "nat \<Rightarrow> string \<Rightarrow> block \<Rightarrow> heap \<Rightarrow> jsval outcome" where
  "get 0 name b h = None"
| "get (Suc n) name b h =
     (if typeof (this_prop b name) = TFunction then Some (Inr (this_prop b name), b, h)
      else if props b ''p'' \<noteq> None then Some (Inl TypeError, b, h)
      else
        let errors = p_errors (p b);
            pname = p_prefix (p b) @ name
        in
        if \<not> hasOwnProperty errors name then
          (if p_base (p b) = Str name then call_getBase b h
           else Some (Inl (Thrown (new_ErrorNotFound (Str pname))), b, h))
        else
          (case normalise pname (getprop errors name) of
             Inl e \<Rightarrow> Some (Inl e, b, h)
           | Inr (ptr, params, aliased) \<Rightarrow>
               let b1 = write_back aliased b name params in
               (case ptr of
                  Fun f \<Rightarrow> Some (Inr ptr, set_this b1 name ptr, h)
                | Bool t \<Rightarrow>
                    if t then
                      (case call_getBase b1 h of
                         None \<Rightarrow> None
                       | Some (Inl e, b2, h2) \<Rightarrow> Some (Inl e, b2, h2)
                       | Some (Inr base, b2, h2) \<Rightarrow>
                           Some (finish name params aliased base b2 h2))
                    else Some (finish name params aliased Null b1 h)
                | Str s \<Rightarrow>
                    (case dispatch b1 h ''get'' of
                       Proto \<Rightarrow>
                         (case get n s b1 h of
                            None \<Rightarrow> None
                          | Some (Inl e, b2, h2) \<Rightarrow> Some (Inl e, b2, h2)
                          | Some (Inr parent, b2, h2) \<Rightarrow>
                              Some (finish name params aliased parent b2 h2))
                     | Raises e \<Rightarrow> Some (Inl e, b1, h)
                     | Opaque \<Rightarrow> None)
                | _ \<Rightarrow>
                    Some (Inl (Thrown (new_ErrorNotFound
                            (Str (''Error '' @ pname @ '' is not found in the block'')))),
                          b1, h))))"

definition call_get :: "nat \<Rightarrow> string \<Rightarrow> block \<Rightarrow> heap \<Rightarrow> jsval outcome" where
  \<comment> \<open>\<open>this.get(name)\<close>\<close>
  "call_get n name b h =
     (case dispatch b h ''get'' of
        Proto \<Rightarrow> get n name b h
      | Raises e \<Rightarrow> Some (Inl e, b, h)
      | Opaque \<Rightarrow> None)"


fun get_each :: "nat \<Rightarrow> string list \<Rightarrow> block \<Rightarrow> heap \<Rightarrow> unit outcome" where
  \<comment> \<open>the loop \<open>for (name in errors) this.get(name)\<close> over the keys of \<open>errors\<close>\<close>
  "get_each n [] b h = Some (Inr (), b, h)"
| "get_each n (name # names) b h =
     (case call_get n name b h of
        None \<Rightarrow> None
      | Some (Inl e, b', h') \<Rightarrow> Some (Inl e, b', h')
      | Some (Inr v, b', h') \<Rightarrow> get_each n names b' h')"

definition createAll :: "nat \<Rightarrow> block \<Rightarrow> heap \<Rightarrow> unit outcome" where
  "createAll n b h =
     (case props b ''p'' of
        Some v \<Rightarrow>
          \<comment> \<open>\<open>this.p\<close> is hidden: by a function, whose \<open>errors\<close> is \<open>undefined\<close>\<close>
          if nullish v then Some (Inl TypeError, b, h)
          else if truthy (this_prop b ''created'') then Some (Inr (), b, h)
          else Some (Inr (), set_this b ''created'' (Bool True), h)
      | None \<Rightarrow>
          if truthy (this_prop b ''created'') then Some (Inr (), b, h)
          else
            (case get_each n (map fst (p_errors (p b))) b h of
               None \<Rightarrow> None
             | Some (Inl e, b', h') \<Rightarrow> Some (Inl e, b', h')
             | Some (Inr u, b', h') \<Rightarrow> Some (Inr (), set_this b' ''created'' (Bool True), h')))"

definition norm_base :: "jsval \<Rightarrow> jsval" where
  \<comment> \<open>the first statement of the constructor\<close>
  "norm_base base =
     (if base = Undefined \<or> base = Bool True \<or> base = Null then Str ''Base''
      else if base = Bool False then Fun GlobalError
      else if typeof base \<noteq> TFunction then Str ([] @ to_string base)
      else base)"

definition new_block :: "(string \<times> jsval) list \<Rightarrow> jsval \<Rightarrow> jsval \<Rightarrow> jsval \<Rightarrow> block" where
  \<comment> \<open>the constructor up to \<open>this.created = false\<close>\<close>
  "new_block errors namespace base lazy =
     \<lparr>p = \<lparr>p_errors = errors, p_namespace = namespace,
           p_prefix = (if truthy namespace then to_string namespace @ ''.'' else []),
           p_base = norm_base base, p_lazy = truthy lazy\<rparr>,
      props = [''created'' \<mapsto> Bool False]\<rparr>"

definition Block ::
  "nat \<Rightarrow> (string \<times> jsval) list \<Rightarrow> jsval \<Rightarrow> jsval \<Rightarrow> jsval \<Rightarrow> heap
     \<Rightarrow> ((exn + block) \<times> heap) option" where
  \<comment> \<open>\<open>new Block(errors, namespace, base, lazy)\<close>\<close>
  "Block n errors namespace base lazy h =
     (let this = new_block errors namespace base lazy in
      if \<not> p_lazy (p this) then
        (case createAll n this h of
           None \<Rightarrow> None
         | Some (Inl e, b, h') \<Rightarrow> Some (Inl e, h')
         | Some (Inr u, b, h') \<Rightarrow> Some (Inr b, h'))
      else Some (Inr this, h))"


section \<open>The chain of ancestors, in the words of the specification\<close>







section \<open>The example of the specification\<close>

definition api_errors :: "(string \<times> jsval) list" where
  \<comment> \<open>\<open>{NotFound: [true, "missing"], Invalid: ["NotFound", "bad input"]}\<close>\<close>
  "api_errors =
     [(''NotFound'', Arr [Bool True, Str ''missing'']),
      (''Invalid'', Arr [Str ''NotFound'', Str ''bad input''])]"

definition api_block :: block where
  \<comment> \<open>\<open>new Block(api_errors, "api", "Base", true)\<close>, nothing resolved yet\<close>
  "api_block = new_block api_errors (Str ''api'') (Str ''Base'') (Bool True)"

definition api_Base :: etype where
  "api_Base =
     \<lparr>tname = Str ''api.Base'', tabstract = Bool True, ce_parent = Fun GlobalError,
      ce_defmessage = Str [], ce_construct = Null\<rparr>"

definition api_NotFound :: "jsval \<Rightarrow> etype" where
  "api_NotFound parent =
     \<lparr>tname = Str ''api.NotFound'', tabstract = Undefined, ce_parent = parent,
      ce_defmessage = Str ''missing'', ce_construct = Null\<rparr>"

definition api_Invalid :: "jsval \<Rightarrow> etype" where
  "api_Invalid parent =
     \<lparr>tname = Str ''api.Invalid'', tabstract = Undefined, ce_parent = parent,
      ce_defmessage = Str ''bad input'', ce_construct = Null\<rparr>"

definition api_resolved :: "nat \<Rightarrow> (string \<rightharpoonup> jsval) \<Rightarrow> block" where
  \<comment> \<open>the example Block once its base is the class at position \<open>r\<close>, with own properties \<open>ps\<close>\<close>
  "api_resolved r ps =
     \<lparr>p = \<lparr>p_errors = api_errors, p_namespace = Str ''api'', p_prefix = ''api.'',
            p_base = Fun (Made r), p_lazy = True\<rparr>,
      props = ps\<rparr>"





section \<open>Relations between the states of a Block\<close>


section \<open>Properties\<close>

subsection \<open>The classes of the module\<close>

lemma module_classes:
  "create (Obj [(''name'', Str ''customErrors.AbstractError''), (''construct'', Fun AbstractCtor)])
     Undefined Undefined Undefined Undefined h
   = Inr (Fun (Made (length h)), h @ [AbstractError_type])"
  "create (Obj [(''name'', Str ''customErrors.ErrorNotFound''), (''construct'', Fun NotFoundCtor)])
     Undefined Undefined Undefined Undefined h
   = Inr (Fun (Made (length h)), h @ [ErrorNotFound_type])"
  by (simp_all add: getprop_def create5_def ce_of_def AbstractError_type_def
      ErrorNotFound_type_def)

subsection \<open>Classes are made once\<close>












subsection \<open>The runs of get\<close>









subsection \<open>Inheritance of the default message and of construct\<close>




subsection \<open>Abstract classes\<close>

declare digits.simps [simp del]

text \<open>
  C2. Whatever the arguments, \<open>new T(...)\<close> on a class whose \<open>abstract\<close> is true raises
  an \<open>AbstractError\<close> that carries the name of \<open>T\<close>; the outcome does not depend on the
  behaviour of any \<open>construct\<close> function, so a custom one does not run. On a class that is
  not abstract, whatever its ancestors are, \<open>new T(...)\<close> never looks at an \<open>abstract\<close>
  flag again: it is the run of the class's \<open>construct\<close> on the fresh instance or, without
  one, the fresh instance with the message argument stored.
\<close>

theorem abstract_instantiation:
  "(type_of h f = Some T \<and> truthy (tabstract T) \<longrightarrow>
      new_instance ext h (Fun f) args =
        Inl (Thrown \<lparr>proto = AbstractError,
                      own = [''errorname'' \<mapsto> tname T,
                             ''message'' \<mapsto>
                               Str (''Error '' @ to_string (tname T) @ '' is abstract'')]\<rparr>)) \<and>
   (type_of h f = Some T \<and> \<not> truthy (tabstract T) \<longrightarrow>
      new_instance ext h (Fun f) args =
        (if truthy (ce_construct T)
         then apply_fn ext h (ce_construct T) \<lparr>proto = f, own = Map.empty\<rparr> args
         else Inr \<lparr>proto = f,
                   own = (if nullish (index args 0) then Map.empty
                          else [''message'' \<mapsto> index args 0])\<rparr>))"
  by (auto simp: new_instance_def CustomError_def new_AbstractError_def AbstractCtor_body_def
      index_def nullish_def Let_def)

text \<open>
  An abstract class with a custom \<open>construct\<close>, a child that inherits that \<open>construct\<close>
  and a child without one; the \<open>construct\<close> marks the instance it runs on.
\<close>

theorem abstract_instantiation_witness:
  "new_instance (\<lambda>f h i args. Inr (i\<lparr>own := (own i)(''ran'' \<mapsto> Bool True)\<rparr>))
     [\<lparr>tname = Str ''Base'', tabstract = Bool True, ce_parent = Fun GlobalError,
       ce_defmessage = Str [], ce_construct = Fun (Extern 7)\<rparr>,
      \<lparr>tname = Str ''Child'', tabstract = Undefined, ce_parent = Fun (Made 0),
       ce_defmessage = Str [], ce_construct = Fun (Extern 7)\<rparr>,
      \<lparr>tname = Str ''Plain'', tabstract = Bool False, ce_parent = Fun (Made 0),
       ce_defmessage = Str [], ce_construct = Null\<rparr>]
     (Fun (Made 0)) [Str ''x''] =
     Inl (Thrown \<lparr>proto = AbstractError,
                   own = [''errorname'' \<mapsto> Str ''Base'',
                          ''message'' \<mapsto> Str ''Error Base is abstract'']\<rparr>) \<and>
   new_instance (\<lambda>f h i args. Inr (i\<lparr>own := (own i)(''ran'' \<mapsto> Bool True)\<rparr>))
     [\<lparr>tname = Str ''Base'', tabstract = Bool True, ce_parent = Fun GlobalError,
       ce_defmessage = Str [], ce_construct = Fun (Extern 7)\<rparr>,
      \<lparr>tname = Str ''Child'', tabstract = Undefined, ce_parent = Fun (Made 0),
       ce_defmessage = Str [], ce_construct = Fun (Extern 7)\<rparr>,
      \<lparr>tname = Str ''Plain'', tabstract = Bool False, ce_parent = Fun (Made 0),
       ce_defmessage = Str [], ce_construct = Null\<rparr>]
     (Fun (Made 1)) [Str ''x''] =
     Inr \<lparr>proto = Made 1, own = [''ran'' \<mapsto> Bool True]\<rparr> \<and>
   new_instance (\<lambda>f h i args. Inr (i\<lparr>own := (own i)(''ran'' \<mapsto> Bool True)\<rparr>))
     [\<lparr>tname = Str ''Base'', tabstract = Bool True, ce_parent = Fun GlobalError,
       ce_defmessage = Str [], ce_construct = Fun (Extern 7)\<rparr>,
      \<lparr>tname = Str ''Child'', tabstract = Undefined, ce_parent = Fun (Made 0),
       ce_defmessage = Str [], ce_construct = Fun (Extern 7)\<rparr>,
      \<lparr>tname = Str ''Plain'', tabstract = Bool False, ce_parent = Fun (Made 0),
       ce_defmessage = Str [], ce_construct = Null\<rparr>]
     (Fun (Made 2)) [Str ''x''] =
     Inr \<lparr>proto = Made 2, own = [''message'' \<mapsto> Str ''x'']\<rparr>"
proof -
  let ?ext = "\<lambda>(f::func) (h::heap) (i::inst) (args::jsval list).
                (Inr (i\<lparr>own := (own i)(''ran'' \<mapsto> Bool True)\<rparr>) :: exn + inst)"
  let ?h = "[\<lparr>tname = Str ''Base'', tabstract = Bool True, ce_parent = Fun GlobalError,
       ce_defmessage = Str [], ce_construct = Fun (Extern 7)\<rparr>,
      \<lparr>tname = Str ''Child'', tabstract = Undefined, ce_parent = Fun (Made 0),
       ce_defmessage = Str [], ce_construct = Fun (Extern 7)\<rparr>,
      \<lparr>tname = Str ''Plain'', tabstract = Bool False, ce_parent = Fun (Made 0),
       ce_defmessage = Str [], ce_construct = Null\<rparr>]"
  have a: "type_of ?h (Made 0) = Some (?h ! 0) \<and> truthy (tabstract (?h ! 0))" by simp
  have b: "type_of ?h (Made 1) = Some (?h ! 1) \<and> \<not> truthy (tabstract (?h ! 1))" by simp
  have c: "type_of ?h (Made 2) = Some (?h ! 2) \<and> \<not> truthy (tabstract (?h ! 2))" by simp
  from abstract_instantiation[of ?h "Made 0" "?h ! 0" ?ext "[Str ''x'']"] a
  have 1: "new_instance ?ext ?h (Fun (Made 0)) [Str ''x''] =
     Inl (Thrown \<lparr>proto = AbstractError,
                   own = [''errorname'' \<mapsto> Str ''Base'',
                          ''message'' \<mapsto> Str ''Error Base is abstract'']\<rparr>)"
    by simp
  from abstract_instantiation[of ?h "Made 1" "?h ! 1" ?ext "[Str ''x'']"] b
  have 2: "new_instance ?ext ?h (Fun (Made 1)) [Str ''x''] =
     Inr \<lparr>proto = Made 1, own = [''ran'' \<mapsto> Bool True]\<rparr>"
    by simp
  from abstract_instantiation[of ?h "Made 2" "?h ! 2" ?ext "[Str ''x'']"] c
  have 3: "new_instance ?ext ?h (Fun (Made 2)) [Str ''x''] =
     Inr \<lparr>proto = Made 2, own = [''message'' \<mapsto> Str ''x'']\<rparr>"
    by (simp add: index_def nullish_def)
  from 1 2 3 show ?thesis by simp
qed

subsection \<open>The base of a Block\<close>


lemma getBase_string:
  "p_base (p b) = Str s \<Longrightarrow>
   getBase b h =
     (Inr (Fun (Made (length h))),
      set_base (set_this b s (Fun (Made (length h)))) (Fun (Made (length h))),
      h @ [\<lparr>tname = Str (p_prefix (p b) @ s), tabstract = Bool True,
            ce_parent = Fun GlobalError, ce_defmessage = Str [], ce_construct = Null\<rparr>])"
  by (simp add: getBase_def create5_def ce_of_def)




subsection \<open>The example Block\<close>

declare get.simps [simp del]

lemmas block_simps =
  this_prop_def block_methods_def object_methods_def hasOwnProperty_def getprop_def setprop_def
  normalise_def index_def write_back_def set_descriptor_def set_this_def set_base_def
  call_getBase_def dispatch_def finish_def Let_def nth_append


text \<open>
  C5. On the example Block (lazy, nothing resolved), one call \<open>get("Invalid")\<close> returns a
  new class and makes three, in this order: the abstract \<open>api.Base\<close> with the empty default
  message, \<open>api.NotFound\<close> with parent the base and default message \<open>missing\<close>, and
  \<open>api.Invalid\<close> with parent \<open>api.NotFound\<close> and default message \<open>bad input\<close>. The
  Block then holds these three under \<open>Base\<close>, \<open>NotFound\<close> and \<open>Invalid\<close>, beside its
  flag \<open>created\<close>, and the base it stores is the new class. Two levels of recursion are
  enough.
\<close>

theorem example_get_Invalid:
  "Block k api_errors (Str ''api'') (Str ''Base'') (Bool True) h = Some (Inr api_block, h) \<and>
   get (Suc (Suc n)) ''Invalid'' api_block h =
     Some (Inr (Fun (Made (length h + 2))),
           api_resolved (length h)
             [''created'' \<mapsto> Bool False,
              ''Base'' \<mapsto> Fun (Made (length h)),
              ''NotFound'' \<mapsto> Fun (Made (length h + 1)),
              ''Invalid'' \<mapsto> Fun (Made (length h + 2))],
           h @ [api_Base,
                api_NotFound (Fun (Made (length h))),
                api_Invalid (Fun (Made (length h + 1)))])"
  by (simp add: Block_def api_block_def new_block_def norm_base_def api_errors_def
      api_resolved_def api_Base_def api_NotFound_def api_Invalid_def getBase_string
      create5_def ce_of_def get.simps block_simps)




subsection \<open>What get stores\<close>










lemma this_prop_p: "props b ''p'' = None \<Longrightarrow> typeof (this_prop b ''p'') = TObject"
  by (simp add: this_prop_def params_obj_def)








subsection \<open>Names that are not declared, names of methods\<close>



lemma new_instance_AbstractError:
  "new_instance ext h (Fun AbstractError) [v] = Inr (new_AbstractError v)"
  by (simp add: new_instance_def CustomError_def AbstractError_type_def new_AbstractError_def)




text \<open>
  C9, as stated, fails in its last part. A Block that declares a descriptor under the
  key \<open>get\<close> never resolves it: \<open>get("get")\<close> returns the method of the prototype,
  \<open>createAll\<close> does the same for that key, and neither stores anything under \<open>get\<close> nor
  makes a class.
\<close>

theorem method_name_counterexample:
  "hasOwnProperty (p_errors (p (new_block [(''get'', Bool True)] Undefined Undefined (Bool True))))
     ''get'' \<and>
   get 1 ''get'' (new_block [(''get'', Bool True)] Undefined Undefined (Bool True)) [] =
     Some (Inr (Fun (BlockMethod ''get'')),
           new_block [(''get'', Bool True)] Undefined Undefined (Bool True), []) \<and>
   props (new_block [(''get'', Bool True)] Undefined Undefined (Bool True)) ''get'' = None \<and>
   createAll 1 (new_block [(''get'', Bool True)] Undefined Undefined (Bool True)) [] =
     Some (Inr (),
           \<lparr>p = \<lparr>p_errors = [(''get'', Bool True)], p_namespace = Undefined, p_prefix = [],
                  p_base = Str ''Base'', p_lazy = True\<rparr>,
             props = [''created'' \<mapsto> Bool True]\<rparr>, [])"
  by (simp add: new_block_def norm_base_def get.simps createAll_def call_get_def block_simps)

text \<open>
  C9, amended. Whenever the Block's property \<open>name\<close> is a function, \<open>get(name)\<close> returns
  it at once and changes nothing, whatever the descriptor map holds, a descriptor under
  that very key included, and raises nothing. The four methods of the prototype are such
  properties as long as no own property hides them. A descriptor declared under such a
  key is therefore never resolved, and the method is not overwritten.
\<close>

theorem method_name_returned:
  "(typeof (this_prop b name) = TFunction \<longrightarrow>
      get (Suc n) name b h = Some (Inr (this_prop b name), b, h) \<and>
      get (Suc n) name (b\<lparr>p := q\<rparr>) h = Some (Inr (this_prop b name), b\<lparr>p := q\<rparr>, h)) \<and>
   (name \<in> {''get'', ''raise'', ''createAll'', ''getBase''} \<and> props b name = None \<longrightarrow>
      this_prop b name = Fun (BlockMethod name) \<and>
      get (Suc n) name b h = Some (Inr (Fun (BlockMethod name)), b, h))"
proof -
  have 1: "this_prop (b\<lparr>p := q\<rparr>) name = this_prop b name"
    if "typeof (this_prop b name) = TFunction"
  proof (cases "props b name")
    case None
    with that this_prop_p[of b] have "name \<noteq> ''p''" by auto
    with None show ?thesis by (simp add: this_prop_def)
  next
    case (Some v)
    then show ?thesis by (simp add: this_prop_def)
  qed
  have 2: "this_prop b name = Fun (BlockMethod name)"
    if "name \<in> {''get'', ''raise'', ''createAll'', ''getBase''}" "props b name = None"
    using that by (auto simp: this_prop_def block_methods_def)
  show ?thesis using 1 2 by (auto simp: get.simps)
qed

text \<open>The method \<open>raise\<close> on the example Block.\<close>

theorem method_name_returned_witness:
  "get 1 ''raise'' api_block [] = Some (Inr (Fun (BlockMethod ''raise'')), api_block, [])"
proof -
  have "''raise'' \<in> {''get'', ''raise'', ''createAll'', ''getBase''} \<and>
        props api_block ''raise'' = None"
    by (simp add: api_block_def new_block_def)
  with method_name_returned[of api_block "''raise''" 0 "[]"] show ?thesis by simp
qed

subsection \<open>The parent reference\<close>









subsection \<open>createAll\<close>














end
